theory Spec2Isabelle
  imports Main
begin

section \<open>The URL phishing checker of \<open>UrlChecker\<close>\<close>

text \<open>
  The component \<open>UrlChecker\<close> holds one piece of logic, the function \<open>analyzeUrl\<close>, which
  maps the text of the input field to a \<open>UrlCheckResult\<close>. It is modelled here together
  with the string methods it calls and with \<open>isLegitimateUse\<close>.
\<close>

subsection \<open>The string methods used by the checker\<close>

text \<open>
  \<open>s.startsWith(p)\<close>, \<open>s.endsWith(p)\<close> and \<open>s.includes(k)\<close> on lists of characters.
  \<open>includes\<close> is a keyword of the theory language, hence the suffix.
\<close>

definition startsWith :: "string \<Rightarrow> string \<Rightarrow> bool" where
  "startsWith s p = (take (length p) s = p)"

definition endsWith :: "string \<Rightarrow> string \<Rightarrow> bool" where
  "endsWith s p = (length p \<le> length s \<and> drop (length s - length p) s = p)"

fun includes_str :: "string \<Rightarrow> string \<Rightarrow> bool" where
  "includes_str [] k = (k = [])"
| "includes_str (c # cs) k = (startsWith (c # cs) k \<or> includes_str cs k)"

text \<open>
  \<open>s.split(sep)\<close> for a separator of one character, the only use the checker makes of
  it (\<open>'-'\<close> and \<open>'.'\<close>): \<open>cur\<close> collects the current segment in reverse. The empty string
  splits into one empty segment.
\<close>

fun split_from :: "char \<Rightarrow> string \<Rightarrow> string \<Rightarrow> string list" where
  "split_from sep cur [] = [rev cur]"
| "split_from sep cur (c # cs) =
     (if c = sep then rev cur # split_from sep [] cs else split_from sep (c # cur) cs)"

definition split_str :: "string \<Rightarrow> char \<Rightarrow> string list" where
  "split_str s sep = split_from sep [] s"

text \<open>
  \<open>s.toLowerCase()\<close>. The checker lowers the \<open>hostname\<close> and the \<open>pathname\<close> of a parsed
  URL only, which the URL serializer writes in ASCII, so only \<open>A\<close> to \<open>Z\<close> (codes 65 to 90)
  change.
\<close>

definition toLowerChar :: "char \<Rightarrow> char" where
  "toLowerChar c =
     (let n = (of_char c :: nat) in if 65 \<le> n \<and> n \<le> 90 then char_of (n + 32) else c)"

definition toLowerCase :: "string \<Rightarrow> string" where
  "toLowerCase s = map toLowerChar s"

text \<open>
  The regular expression \<open>/^\d+\.\d+\.\d+\.\d+/\<close>, tested at the start of the string.
  \<open>digits1\<close> is \<open>\d+\<close>: it needs one digit, consumes every digit that follows and returns
  the rest; \<open>dot1\<close> is \<open>\.\<close>. Taking all digits loses no match, because what follows each of
  the first three groups must be a dot.
\<close>

definition isDigit :: "char \<Rightarrow> bool" where
  "isDigit c = (c \<in> set ''0123456789'')"

definition digits1 :: "string \<Rightarrow> string option" where
  "digits1 s = (if takeWhile isDigit s = [] then None else Some (dropWhile isDigit s))"

definition dot1 :: "string \<Rightarrow> string option" where
  "dot1 s = (case s of [] \<Rightarrow> None | c # cs \<Rightarrow> if c = CHR ''.'' then Some cs else None)"

definition ipPattern :: "string \<Rightarrow> bool" where
  "ipPattern s =
     (case digits1 s of None \<Rightarrow> False | Some s1 \<Rightarrow>
      case dot1 s1 of None \<Rightarrow> False | Some s2 \<Rightarrow>
      case digits1 s2 of None \<Rightarrow> False | Some s3 \<Rightarrow>
      case dot1 s3 of None \<Rightarrow> False | Some s4 \<Rightarrow>
      case digits1 s4 of None \<Rightarrow> False | Some s5 \<Rightarrow>
      case dot1 s5 of None \<Rightarrow> False | Some s6 \<Rightarrow>
      case digits1 s6 of None \<Rightarrow> False | Some s7 \<Rightarrow> True)"

subsection \<open>Data\<close>

datatype Status = Safe | Suspicious | Dangerous

record UrlCheckResult =
  status :: Status
  score :: int
  reasons :: "string list"

text \<open>
  The two fields of the platform's \<open>URL\<close> object that the checker reads. The constructor
  \<open>new URL(s)\<close> is not code of the component: it is a parameter \<open>newURL\<close> of the model, and
  returns \<open>None\<close> where the constructor throws its \<open>TypeError\<close>.
\<close>

record URL =
  hostname :: string
  pathname :: string

datatype error = TypeError

text \<open>The two local variables that the rules update: \<open>riskScore\<close> and the array \<open>reasons\<close>.\<close>

record Acc =
  riskScore :: int
  reasonsArr :: "string list"

subsection \<open>The constant tables\<close>

definition suspiciousKeywords :: "string list" where
  "suspiciousKeywords =
     [''login'', ''verify'', ''update'', ''urgent'', ''suspend'', ''confirm'', ''security'',
      ''paypal'', ''amazon'', ''netflix'', ''microsoft'', ''google'', ''facebook'',
      ''bank'', ''secure'', ''account'', ''expired'', ''limited'', ''restricted'']"

definition legitimateDomains :: "string list" where
  "legitimateDomains =
     [''login.microsoftonline.com'', ''accounts.google.com'', ''secure.paypal.com'',
      ''login.live.com'']"

definition shorteners :: "string list" where
  "shorteners = [''bit.ly'', ''tinyurl.com'', ''t.co'', ''short.link'', ''tiny.cc'']"

definition commonBrands :: "string list" where
  "commonBrands = [''paypal'', ''amazon'', ''microsoft'', ''google'', ''apple'', ''netflix'']"

subsection \<open>The checker\<close>

text \<open>\<open>isLegitimateUse\<close> takes the keyword and does not look at it.\<close>

definition isLegitimateUse :: "string \<Rightarrow> string \<Rightarrow> bool" where
  "isLegitimateUse domain keyword =
     list_ex (\<lambda>legit. includes_str domain legit) legitimateDomains"

text \<open>
  Every rule has the shape \<open>if (cond) { riskScore += w; reasons.push(msg); }\<close>.
\<close>

definition fire :: "bool \<Rightarrow> int \<Rightarrow> string \<Rightarrow> Acc \<Rightarrow> Acc" where
  "fire cond w msg st =
     (if cond then \<lparr>riskScore = riskScore st + w, reasonsArr = reasonsArr st @ [msg]\<rparr>
      else st)"

text \<open>The body of the \<open>forEach\<close> over \<open>commonBrands\<close>.\<close>

definition brandStep :: "string \<Rightarrow> string \<Rightarrow> Acc \<Rightarrow> Acc" where
  "brandStep domain brand st =
     fire (includes_str domain brand \<and> \<not> endsWith domain (brand @ ''.com'')
             \<and> \<not> endsWith domain (brand @ ''.net''))
          40 (''Potentially impersonating '' @ brand) st"

text \<open>
  The rules, from the reading of \<open>urlObj\<close> down to the check for \<open>http://\<close>, in the order
  of the source. (\<open>fullUrl\<close> is computed by the source and never read.)
\<close>

definition checkRules :: "string \<Rightarrow> URL \<Rightarrow> Acc" where
  "checkRules urlToCheck urlObj =
     (let domain = toLowerCase (hostname urlObj);
          path = toLowerCase (pathname urlObj);
          st = \<lparr>riskScore = 0, reasonsArr = []\<rparr>;
          domainSuspicious =
            list_ex (\<lambda>keyword. includes_str domain keyword \<and> \<not> isLegitimateUse domain keyword)
              suspiciousKeywords;
          st = fire domainSuspicious 30 ''Domain contains suspicious keywords'' st;
          pathSuspicious = list_ex (\<lambda>keyword. includes_str path keyword) suspiciousKeywords;
          st = fire pathSuspicious 20 ''URL path contains phishing-related terms'' st;
          st = fire (list_ex (\<lambda>shortener. includes_str domain shortener) shorteners)
                 25 ''Uses URL shortening service'' st;
          st = fire (includes_str domain ''-'' \<and> length (split_str domain (CHR ''-'')) > 3)
                 15 ''Domain has suspicious hyphen pattern'' st;
          st = fold (brandStep domain) commonBrands st;
          st = fire (ipPattern domain) 35 ''Uses IP address instead of domain name'' st;
          subdomains = split_str domain (CHR ''.'');
          st = fire (length subdomains > 4) 20 ''Excessive subdomains detected'' st;
          st = fire (startsWith urlToCheck ''http://'')
                 15 ''Not using secure HTTPS connection'' st
      in st)"

text \<open>The status from the accumulated score, and the result object.\<close>

definition classify :: "Acc \<Rightarrow> UrlCheckResult" where
  "classify st =
     (if riskScore st \<ge> 50 then
        \<lparr>status = Dangerous, score = min (riskScore st) 100,
         reasons = ''High risk of phishing'' # reasonsArr st\<rparr>
      else if riskScore st \<ge> 25 then
        \<lparr>status = Suspicious, score = min (riskScore st) 100,
         reasons = ''Potential security concerns'' # reasonsArr st\<rparr>
      else
        \<lparr>status = Safe, score = min (riskScore st) 100,
         reasons = (if length (reasonsArr st) = 0
                    then reasonsArr st @ [''No obvious red flags detected'']
                    else reasonsArr st)\<rparr>)"

text \<open>The added scheme: \<open>urlToCheck\<close> as the source computes it from \<open>inputUrl\<close>.\<close>

definition urlToCheck_of :: "string \<Rightarrow> string" where
  "urlToCheck_of inputUrl =
     (if \<not> startsWith inputUrl ''http://'' \<and> \<not> startsWith inputUrl ''https://''
      then ''https://'' @ inputUrl else inputUrl)"

text \<open>
  The \<open>try\<close> block: the only statement of it that can throw is \<open>new URL(urlToCheck)\<close>.
\<close>

definition tryBlock :: "(string \<Rightarrow> URL option) \<Rightarrow> string \<Rightarrow> error + UrlCheckResult" where
  "tryBlock newURL inputUrl =
     (let urlToCheck = urlToCheck_of inputUrl in
      case newURL urlToCheck of
        None \<Rightarrow> Inl TypeError
      | Some urlObj \<Rightarrow> Inr (classify (checkRules urlToCheck urlObj)))"

text \<open>\<open>analyzeUrl\<close>: the \<open>try\<close> block, and the \<open>catch\<close> clause that returns the fixed result.\<close>

definition analyzeUrl :: "(string \<Rightarrow> URL option) \<Rightarrow> string \<Rightarrow> UrlCheckResult" where
  "analyzeUrl newURL inputUrl =
     (case tryBlock newURL inputUrl of
        Inr result \<Rightarrow> result
      | Inl e \<Rightarrow>
          \<lparr>status = Suspicious, score = 30,
           reasons = [''Invalid URL format'', ''Could not properly analyze URL'']\<rparr>)"

subsection \<open>A sample of the URL constructor\<close>

text \<open>
  The URL Standard, which \<open>new URL\<close> implements, is not part of the component. For the
  strings below it is short to state: \<open>http://\<close> or \<open>https://\<close>, then a host of labels
  separated by dots, each label a non-empty word of lower-case letters, digits and hyphens
  that does not begin with \<open>xn--\<close>, then nothing or a path that begins with \<open>/\<close> and holds
  lower-case letters, digits, \<open>/\<close>, \<open>-\<close> and \<open>_\<close> only. The last label begins with a
  letter, or else the host is four decimal numbers from 0 to 255 written without leading
  zeros. On such a string the constructor succeeds, \<open>hostname\<close> is the host as written and
  \<open>pathname\<close> is the path as written, or \<open>/\<close> when there is none.

  \<open>simpleURL\<close> returns that on such strings and \<open>None\<close> on all others. It stands for the
  constructor on these strings only: the theorems about all inputs hold for every
  constructor, and \<open>simpleURL\<close> serves to run the checker on concrete inputs.
\<close>

definition isLower :: "char \<Rightarrow> bool" where
  "isLower c = (c \<in> set ''abcdefghijklmnopqrstuvwxyz'')"

definition hostLabel :: "string \<Rightarrow> bool" where
  "hostLabel l =
     (l \<noteq> [] \<and> list_all (\<lambda>c. isLower c \<or> isDigit c \<or> c = CHR ''-'') l
      \<and> \<not> startsWith l ''xn--'')"

definition decimal :: "string \<Rightarrow> nat" where
  "decimal l = foldl (\<lambda>n c. 10 * n + (of_char c - 48)) 0 l"

definition octet :: "string \<Rightarrow> bool" where
  "octet l =
     (l \<noteq> [] \<and> list_all isDigit l \<and> length l \<le> 3 \<and> decimal l \<le> 255
      \<and> (if length l > 1 then hd l \<in> set ''123456789'' else True))"

definition simpleHost :: "string \<Rightarrow> bool" where
  "simpleHost h =
     (let labels = split_str h (CHR ''.'') in
      list_all hostLabel labels \<and>
      (if isLower (hd (last labels)) then True
       else length labels = 4 \<and> list_all octet labels))"

definition simplePath :: "string \<Rightarrow> bool" where
  "simplePath p =
     list_all (\<lambda>c. isLower c \<or> isDigit c \<or> c \<in> set ''/-_'') p"

definition simpleURL :: "string \<Rightarrow> URL option" where
  "simpleURL s =
     (let rest = (if startsWith s ''http://'' then drop 7 s
                  else if startsWith s ''https://'' then drop 8 s else []);
          h = takeWhile (\<lambda>c. c \<noteq> CHR ''/'') rest;
          p = dropWhile (\<lambda>c. c \<noteq> CHR ''/'') rest
      in if simpleHost h \<and> simplePath p
         then Some \<lparr>hostname = h, pathname = (if p = [] then ''/'' else p)\<rparr>
         else None)"

subsection \<open>The rules in closed form\<close>

text \<open>
  The brands that a hostname impersonates, in the order of \<open>commonBrands\<close>; a rule that
  fires at most once, as a list of at most one pair of weight and reason; the four rules
  before the brand rule and the three after it.
\<close>

definition impersonated :: "string \<Rightarrow> string list" where
  "impersonated domain =
     filter (\<lambda>brand. includes_str domain brand \<and> \<not> endsWith domain (brand @ ''.com'')
                      \<and> \<not> endsWith domain (brand @ ''.net''))
       commonBrands"

definition once :: "bool \<Rightarrow> int \<Rightarrow> string \<Rightarrow> (int \<times> string) list" where
  "once cond w msg = (if cond then [(w, msg)] else [])"

definition rulesBefore :: "string \<Rightarrow> string \<Rightarrow> (int \<times> string) list" where
  "rulesBefore domain path =
     once (list_ex (\<lambda>keyword. includes_str domain keyword \<and> \<not> isLegitimateUse domain keyword)
             suspiciousKeywords)
       30 ''Domain contains suspicious keywords''
     @ once (list_ex (\<lambda>keyword. includes_str path keyword) suspiciousKeywords)
         20 ''URL path contains phishing-related terms''
     @ once (list_ex (\<lambda>shortener. includes_str domain shortener) shorteners)
         25 ''Uses URL shortening service''
     @ once (includes_str domain ''-'' \<and> length (split_str domain (CHR ''-'')) > 3)
         15 ''Domain has suspicious hyphen pattern''"

definition rulesAfter :: "string \<Rightarrow> string \<Rightarrow> (int \<times> string) list" where
  "rulesAfter urlToCheck domain =
     once (ipPattern domain) 35 ''Uses IP address instead of domain name''
     @ once (length (split_str domain (CHR ''.'')) > 4) 20 ''Excessive subdomains detected''
     @ once (startsWith urlToCheck ''http://'') 15 ''Not using secure HTTPS connection''"

definition brandRule :: "string \<Rightarrow> (int \<times> string) list" where
  "brandRule domain =
     map (\<lambda>brand. (40, ''Potentially impersonating '' @ brand)) (impersonated domain)"

definition firedRules :: "string \<Rightarrow> URL \<Rightarrow> (int \<times> string) list" where
  "firedRules urlToCheck urlObj =
     (let domain = toLowerCase (hostname urlObj); path = toLowerCase (pathname urlObj)
      in rulesBefore domain path @ brandRule domain @ rulesAfter urlToCheck domain)"

section \<open>Properties\<close>

subsection \<open>The string methods\<close>

text \<open>
  The executable definitions above agree with what the methods mean: a prefix, a suffix,
  a contiguous part, one segment more than there are separators, and a match of the
  regular expression as four non-empty groups of digits separated by dots at the start.
\<close>

lemma startsWith_iff: "startsWith s p = (\<exists>r. s = p @ r)"
proof
  assume "startsWith s p"
  then have "s = p @ drop (length p) s"
    by (metis append_take_drop_id startsWith_def)
  then show "\<exists>r. s = p @ r" ..
next
  assume "\<exists>r. s = p @ r"
  then show "startsWith s p"
    by (auto simp add: startsWith_def)
qed

lemma endsWith_iff: "endsWith s p = (\<exists>r. s = r @ p)"
proof
  assume "endsWith s p"
  then have "s = take (length s - length p) s @ p"
    by (metis append_take_drop_id endsWith_def)
  then show "\<exists>r. s = r @ p" ..
next
  assume "\<exists>r. s = r @ p"
  then show "endsWith s p"
    by (auto simp add: endsWith_def)
qed

lemma includes_str_iff: "includes_str s k = (\<exists>a b. s = a @ k @ b)"
proof (induction s)
  case Nil
  show ?case by auto
next
  case (Cons c cs)
  have "(\<exists>a b. c # cs = a @ k @ b) = ((\<exists>b. c # cs = k @ b) \<or> (\<exists>a b. cs = a @ k @ b))"
    by (auto simp add: Cons_eq_append_conv)
  then show ?case
    by (simp add: Cons.IH startsWith_iff)
qed

lemma length_split_from: "length (split_from sep cur s) = Suc (count_list s sep)"
  by (induction s arbitrary: cur) simp_all

lemma length_split_str: "length (split_str s sep) = Suc (count_list s sep)"
  by (simp add: split_str_def length_split_from)

lemma dot1_iff: "(dot1 s = Some r) = (s = CHR ''.'' # r)"
  by (auto simp add: dot1_def split: list.splits)

lemma digits1_Some:
  assumes "digits1 s = Some r"
  shows "\<exists>a. s = a @ r \<and> a \<noteq> [] \<and> list_all isDigit a"
proof -
  from assms have "takeWhile isDigit s \<noteq> []" and "r = dropWhile isDigit s"
    by (auto simp add: digits1_def split: if_splits)
  moreover have "list_all isDigit (takeWhile isDigit s)"
    by (auto simp add: list_all_iff dest: set_takeWhileD)
  moreover have "s = takeWhile isDigit s @ dropWhile isDigit s"
    by simp
  ultimately show ?thesis by metis
qed

lemma digits1_before_dot:
  assumes "a \<noteq> []" and "list_all isDigit a"
  shows "digits1 (a @ CHR ''.'' # r) = Some (CHR ''.'' # r)"
proof -
  have "\<not> isDigit (CHR ''.'')"
    by (simp add: isDigit_def)
  with assms have "takeWhile isDigit (a @ CHR ''.'' # r) = a"
    and "dropWhile isDigit (a @ CHR ''.'' # r) = CHR ''.'' # r"
    by (simp_all add: list_all_iff takeWhile_append2 dropWhile_append2)
  with assms show ?thesis by (simp add: digits1_def)
qed

lemma digits1_at_end:
  assumes "a \<noteq> []" and "list_all isDigit a"
  shows "digits1 (a @ r) \<noteq> None"
proof -
  from assms obtain c cs where "a = c # cs" and "isDigit c"
    by (cases a) auto
  then show ?thesis by (simp add: digits1_def)
qed

lemma ipPattern_iff:
  "ipPattern s =
     (\<exists>a b c d r. s = a @ ''.'' @ b @ ''.'' @ c @ ''.'' @ d @ r
        \<and> a \<noteq> [] \<and> b \<noteq> [] \<and> c \<noteq> [] \<and> d \<noteq> []
        \<and> list_all isDigit a \<and> list_all isDigit b \<and> list_all isDigit c \<and> list_all isDigit d)"
proof
  assume "ipPattern s"
  then obtain s1 s2 s3 s4 s5 s6 s7 where
    "digits1 s = Some s1" "dot1 s1 = Some s2" "digits1 s2 = Some s3" "dot1 s3 = Some s4"
    "digits1 s4 = Some s5" "dot1 s5 = Some s6" "digits1 s6 = Some s7"
    by (auto simp add: ipPattern_def split: option.splits)
  then obtain a b c d where
    "s = a @ s1" "s1 = CHR ''.'' # s2" "s2 = b @ s3" "s3 = CHR ''.'' # s4"
    "s4 = c @ s5" "s5 = CHR ''.'' # s6" "s6 = d @ s7"
    "a \<noteq> []" "b \<noteq> []" "c \<noteq> []" "d \<noteq> []"
    "list_all isDigit a" "list_all isDigit b" "list_all isDigit c" "list_all isDigit d"
    unfolding dot1_iff by (metis digits1_Some)
  then have "s = a @ ''.'' @ b @ ''.'' @ c @ ''.'' @ d @ s7
      \<and> a \<noteq> [] \<and> b \<noteq> [] \<and> c \<noteq> [] \<and> d \<noteq> []
      \<and> list_all isDigit a \<and> list_all isDigit b \<and> list_all isDigit c \<and> list_all isDigit d"
    by simp
  then show "\<exists>a b c d r. s = a @ ''.'' @ b @ ''.'' @ c @ ''.'' @ d @ r
        \<and> a \<noteq> [] \<and> b \<noteq> [] \<and> c \<noteq> [] \<and> d \<noteq> []
        \<and> list_all isDigit a \<and> list_all isDigit b \<and> list_all isDigit c \<and> list_all isDigit d"
    by blast
next
  assume "\<exists>a b c d r. s = a @ ''.'' @ b @ ''.'' @ c @ ''.'' @ d @ r
        \<and> a \<noteq> [] \<and> b \<noteq> [] \<and> c \<noteq> [] \<and> d \<noteq> []
        \<and> list_all isDigit a \<and> list_all isDigit b \<and> list_all isDigit c \<and> list_all isDigit d"
  then obtain a b c d r where s: "s = a @ CHR ''.'' # b @ CHR ''.'' # c @ CHR ''.'' # d @ r"
    and ne: "a \<noteq> []" "b \<noteq> []" "c \<noteq> []" "d \<noteq> []"
    and dig: "list_all isDigit a" "list_all isDigit b" "list_all isDigit c" "list_all isDigit d"
    by auto
  from digits1_at_end [OF ne(4) dig(4)] obtain s7 where "digits1 (d @ r) = Some s7"
    by auto
  then show "ipPattern s"
    unfolding s ipPattern_def
    by (simp add: digits1_before_dot ne dig dot1_def)
qed

subsection \<open>The rules in closed form, proofs\<close>

text \<open>
  The accumulator after all rules is the sum of the weights and the list of the reasons
  of \<open>firedRules\<close>; its score is not negative and at most 40 times the number of reasons.
\<close>

lemma fire_once:
  "riskScore (fire c w m st) = riskScore st + sum_list (map fst (once c w m))"
  "reasonsArr (fire c w m st) = reasonsArr st @ map snd (once c w m)"
  by (simp_all add: fire_def once_def)

lemma fold_brandStep:
  "riskScore (fold (brandStep d) bs st) =
     riskScore st + sum_list (map fst (map (\<lambda>brand. (40, ''Potentially impersonating '' @ brand))
       (filter (\<lambda>brand. includes_str d brand \<and> \<not> endsWith d (brand @ ''.com'')
                      \<and> \<not> endsWith d (brand @ ''.net'')) bs))) \<and>
   reasonsArr (fold (brandStep d) bs st) =
     reasonsArr st @ map snd (map (\<lambda>brand. (40 :: int, ''Potentially impersonating '' @ brand))
       (filter (\<lambda>brand. includes_str d brand \<and> \<not> endsWith d (brand @ ''.com'')
                      \<and> \<not> endsWith d (brand @ ''.net'')) bs))"
proof (induction bs arbitrary: st)
  case Nil
  show ?case by simp
next
  case (Cons b bs)
  show ?case
    by (simp only: fold_simps Cons.IH) (simp add: brandStep_def fire_def)
qed

lemma fold_brandRule:
  "riskScore (fold (brandStep d) commonBrands st) = riskScore st + sum_list (map fst (brandRule d))"
  "reasonsArr (fold (brandStep d) commonBrands st) = reasonsArr st @ map snd (brandRule d)"
  by (simp_all only: fold_brandStep brandRule_def impersonated_def)

lemma sum_brandRule: "sum_list (map fst (brandRule d)) = 40 * int (length (impersonated d))"
  by (simp add: brandRule_def comp_def sum_list_triv)

lemma checkRules_fired:
  "riskScore (checkRules u urlObj) = sum_list (map fst (firedRules u urlObj))"
  "reasonsArr (checkRules u urlObj) = map snd (firedRules u urlObj)"
  by (simp_all add: checkRules_def firedRules_def rulesBefore_def rulesAfter_def Let_def
        fire_once fold_brandRule)

lemma fire_bounds:
  assumes "0 \<le> w" and "w \<le> 40"
    and "0 \<le> riskScore st \<and> riskScore st \<le> 40 * int (length (reasonsArr st))"
  shows "0 \<le> riskScore (fire c w m st) \<and>
         riskScore (fire c w m st) \<le> 40 * int (length (reasonsArr (fire c w m st)))"
  using assms by (simp add: fire_def)

lemma fold_brandStep_bounds:
  "0 \<le> riskScore st \<and> riskScore st \<le> 40 * int (length (reasonsArr st)) \<Longrightarrow>
   0 \<le> riskScore (fold (brandStep d) bs st) \<and>
   riskScore (fold (brandStep d) bs st)
     \<le> 40 * int (length (reasonsArr (fold (brandStep d) bs st)))"
proof (induction bs arbitrary: st)
  case Nil
  then show ?case by simp
next
  case (Cons b bs)
  have "0 \<le> riskScore (brandStep d b st) \<and>
        riskScore (brandStep d b st) \<le> 40 * int (length (reasonsArr (brandStep d b st)))"
    unfolding brandStep_def using Cons.prems by (intro fire_bounds) simp_all
  from Cons.IH [OF this] show ?case by simp
qed

lemma checkRules_bounds:
  "0 \<le> riskScore (checkRules u urlObj) \<and>
   riskScore (checkRules u urlObj) \<le> 40 * int (length (reasonsArr (checkRules u urlObj)))"
  unfolding checkRules_def Let_def
  by (intro fire_bounds fold_brandStep_bounds) simp_all

lemma analyzeUrl_None:
  "newURL (urlToCheck_of inputUrl) = None \<Longrightarrow>
   analyzeUrl newURL inputUrl =
     \<lparr>status = Suspicious, score = 30,
      reasons = [''Invalid URL format'', ''Could not properly analyze URL'']\<rparr>"
  by (simp add: analyzeUrl_def tryBlock_def)

lemma analyzeUrl_Some:
  "newURL (urlToCheck_of inputUrl) = Some urlObj \<Longrightarrow>
   analyzeUrl newURL inputUrl = classify (checkRules (urlToCheck_of inputUrl) urlObj)"
  by (simp add: analyzeUrl_def tryBlock_def)

lemma classify_thresholds:
  "(status (classify st) = Dangerous) = (50 \<le> score (classify st))"
  "(status (classify st) = Suspicious) = (25 \<le> score (classify st) \<and> score (classify st) < 50)"
  "(status (classify st) = Safe) = (score (classify st) < 25)"
  by (auto simp add: classify_def min_def)

lemma score_classify: "score (classify st) = min (riskScore st) 100"
  by (simp add: classify_def)

lemma reasons_classify:
  "reasons (classify st) =
     (if 50 \<le> riskScore st then [''High risk of phishing'']
      else if 25 \<le> riskScore st then [''Potential security concerns'']
      else if reasonsArr st = [] then [''No obvious red flags detected'']
      else []) @ reasonsArr st"
  by (simp add: classify_def)

lemma snd_once: "map snd (once c w m) = map snd (filter fst [(c, m)])"
  by (simp add: once_def)

lemma distinct_once_reasons:
  "distinct (map snd (rulesBefore d p @ rulesAfter u d))"
proof -
  have "\<exists>c1 c2 c3 c4 c6 c7 c8.
      map snd (rulesBefore d p @ rulesAfter u d) =
        map snd (filter fst
          [(c1, ''Domain contains suspicious keywords''),
           (c2, ''URL path contains phishing-related terms''),
           (c3, ''Uses URL shortening service''),
           (c4, ''Domain has suspicious hyphen pattern''),
           (c6, ''Uses IP address instead of domain name''),
           (c7, ''Excessive subdomains detected''),
           (c8, ''Not using secure HTTPS connection'')])"
    unfolding rulesBefore_def rulesAfter_def map_append snd_once filter_append [symmetric]
      map_append [symmetric] append.simps
    by blast
  then obtain cs :: "(bool \<times> string) list" where
    eq: "map snd (rulesBefore d p @ rulesAfter u d) = map snd (filter fst cs)"
    and cs: "map snd cs =
      [''Domain contains suspicious keywords'', ''URL path contains phishing-related terms'',
       ''Uses URL shortening service'', ''Domain has suspicious hyphen pattern'',
       ''Uses IP address instead of domain name'', ''Excessive subdomains detected'',
       ''Not using secure HTTPS connection'']"
    by fastforce
  have "distinct (map snd cs)"
    unfolding cs by simp
  then show ?thesis
    unfolding eq by (rule distinct_map_filter)
qed

lemma distinct_impersonated: "distinct (impersonated d)"
  by (simp add: impersonated_def commonBrands_def)

lemma analyzeUrl_with_scheme:
  assumes "urlToCheck_of inputUrl = inputUrl"
    and "newURL inputUrl = Some urlObj"
    and "classify (checkRules inputUrl urlObj) = result"
  shows "analyzeUrl newURL inputUrl = result"
  using assms by (simp add: analyzeUrl_Some)

subsection \<open>Status and score\<close>

text \<open>
  C2. For every input string, and whatever the URL constructor returns, the result of
  \<open>analyzeUrl\<close> has status dangerous exactly when its score is at least 50, status
  suspicious exactly when its score is at least 25 and below 50, and status safe exactly
  when its score is below 25. The status is computed from \<open>riskScore\<close> and the score is
  \<open>min riskScore 100\<close>; both thresholds lie below 100, so the two agree.
\<close>

theorem status_follows_score:
  "(status (analyzeUrl newURL inputUrl) = Dangerous) = (50 \<le> score (analyzeUrl newURL inputUrl))
   \<and> (status (analyzeUrl newURL inputUrl) = Suspicious) =
       (25 \<le> score (analyzeUrl newURL inputUrl) \<and> score (analyzeUrl newURL inputUrl) < 50)
   \<and> (status (analyzeUrl newURL inputUrl) = Safe) = (score (analyzeUrl newURL inputUrl) < 25)"
proof (cases "newURL (urlToCheck_of inputUrl)")
  case None
  then show ?thesis by (simp add: analyzeUrl_None)
next
  case (Some urlObj)
  then show ?thesis by (simp add: analyzeUrl_Some classify_thresholds)
qed

text \<open>
  Both thresholds are met exactly by inputs of the checker: a URL shortener alone gives
  score 25, and an IP address over \<open>http\<close> gives score 50.
\<close>

lemma threshold_scores_reached:
  "analyzeUrl simpleURL ''bit.ly'' =
     \<lparr>status = Suspicious, score = 25,
      reasons = [''Potential security concerns'', ''Uses URL shortening service'']\<rparr>"
  "analyzeUrl simpleURL ''http://10.0.0.1'' =
     \<lparr>status = Dangerous, score = 50,
      reasons = [''High risk of phishing'', ''Uses IP address instead of domain name'',
                 ''Not using secure HTTPS connection'']\<rparr>"
  by code_simp+

text \<open>
  C3. For every input string, also one that the URL constructor rejects, the score of the
  result is an integer from 0 to 100. When the constructor accepts the string, the score is
  the minimum of the accumulated \<open>riskScore\<close> and 100, so an accumulated weight above 100
  gives exactly 100.
\<close>

theorem score_clamped:
  "0 \<le> score (analyzeUrl newURL inputUrl) \<and> score (analyzeUrl newURL inputUrl) \<le> 100
   \<and> (newURL (urlToCheck_of inputUrl) = Some urlObj \<longrightarrow>
        score (analyzeUrl newURL inputUrl)
          = min (riskScore (checkRules (urlToCheck_of inputUrl) urlObj)) 100)
   \<and> (newURL (urlToCheck_of inputUrl) = Some urlObj
        \<and> 100 < riskScore (checkRules (urlToCheck_of inputUrl) urlObj) \<longrightarrow>
        score (analyzeUrl newURL inputUrl) = 100)"
proof (cases "newURL (urlToCheck_of inputUrl)")
  case None
  then show ?thesis by (simp add: analyzeUrl_None)
next
  case (Some u)
  have "0 \<le> riskScore (checkRules (urlToCheck_of inputUrl) u)"
    using checkRules_bounds by blast
  with Some show ?thesis by (auto simp add: analyzeUrl_Some score_classify)
qed

theorem score_clamped_witness:
  "simpleURL (urlToCheck_of ''paypal-amazon-google.evil.com'')
     = Some \<lparr>hostname = ''paypal-amazon-google.evil.com'', pathname = ''/''\<rparr>
   \<and> riskScore (checkRules (urlToCheck_of ''paypal-amazon-google.evil.com'')
        \<lparr>hostname = ''paypal-amazon-google.evil.com'', pathname = ''/''\<rparr>) = 150
   \<and> score (analyzeUrl simpleURL ''paypal-amazon-google.evil.com'') = 100"
proof -
  have parsed: "simpleURL (urlToCheck_of ''paypal-amazon-google.evil.com'')
     = Some \<lparr>hostname = ''paypal-amazon-google.evil.com'', pathname = ''/''\<rparr>"
    by code_simp
  have raw: "riskScore (checkRules (urlToCheck_of ''paypal-amazon-google.evil.com'')
        \<lparr>hostname = ''paypal-amazon-google.evil.com'', pathname = ''/''\<rparr>) = 150"
    by code_simp
  from score_clamped [of simpleURL "''paypal-amazon-google.evil.com''"
      "\<lparr>hostname = ''paypal-amazon-google.evil.com'', pathname = ''/''\<rparr>"]
  have "score (analyzeUrl simpleURL ''paypal-amazon-google.evil.com'') = 100"
    using parsed raw by simp
  with parsed raw show ?thesis by (intro conjI)
qed

subsection \<open>Reasons\<close>

text \<open>
  C4. For every input string the list of reasons of the result is not empty. When the
  constructor throws, it is the two fixed diagnostic strings. When the constructor
  succeeds and no rule has pushed a reason, the status is safe and the list is the one
  default string.
\<close>

theorem reasons_never_empty:
  "reasons (analyzeUrl newURL inputUrl) \<noteq> []
   \<and> (newURL (urlToCheck_of inputUrl) = None \<longrightarrow>
        reasons (analyzeUrl newURL inputUrl)
          = [''Invalid URL format'', ''Could not properly analyze URL''])
   \<and> (newURL (urlToCheck_of inputUrl) = Some urlObj
        \<and> reasonsArr (checkRules (urlToCheck_of inputUrl) urlObj) = [] \<longrightarrow>
        status (analyzeUrl newURL inputUrl) = Safe
        \<and> reasons (analyzeUrl newURL inputUrl) = [''No obvious red flags detected''])"
proof (cases "newURL (urlToCheck_of inputUrl)")
  case None
  then show ?thesis by (simp add: analyzeUrl_None)
next
  case (Some u)
  have nonempty: "reasons (classify st) \<noteq> []" for st
    by (simp add: classify_def)
  have "riskScore (checkRules (urlToCheck_of inputUrl) u) \<le> 0"
    if "reasonsArr (checkRules (urlToCheck_of inputUrl) u) = []"
    using checkRules_bounds [of "urlToCheck_of inputUrl" u] that by simp
  then have "status (classify (checkRules (urlToCheck_of inputUrl) u)) = Safe \<and>
      reasons (classify (checkRules (urlToCheck_of inputUrl) u))
        = [''No obvious red flags detected'']"
    if "reasonsArr (checkRules (urlToCheck_of inputUrl) u) = []"
    using that by (simp add: classify_def)
  with Some nonempty show ?thesis by (auto simp add: analyzeUrl_Some)
qed

theorem reasons_never_empty_witness:
  "simpleURL (urlToCheck_of ''http://'') = None
   \<and> reasons (analyzeUrl simpleURL ''http://'')
        = [''Invalid URL format'', ''Could not properly analyze URL'']
   \<and> simpleURL (urlToCheck_of ''example.com'')
        = Some \<lparr>hostname = ''example.com'', pathname = ''/''\<rparr>
   \<and> reasonsArr (checkRules (urlToCheck_of ''example.com'')
        \<lparr>hostname = ''example.com'', pathname = ''/''\<rparr>) = []
   \<and> status (analyzeUrl simpleURL ''example.com'') = Safe
   \<and> reasons (analyzeUrl simpleURL ''example.com'') = [''No obvious red flags detected'']"
proof -
  have failed: "simpleURL (urlToCheck_of ''http://'') = None"
    by code_simp
  have parsed: "simpleURL (urlToCheck_of ''example.com'')
        = Some \<lparr>hostname = ''example.com'', pathname = ''/''\<rparr>"
    by code_simp
  have quiet: "reasonsArr (checkRules (urlToCheck_of ''example.com'')
        \<lparr>hostname = ''example.com'', pathname = ''/''\<rparr>) = []"
    by code_simp
  have "reasons (analyzeUrl simpleURL ''http://'')
        = [''Invalid URL format'', ''Could not properly analyze URL'']"
    using reasons_never_empty [of simpleURL "''http://''"] failed by blast
  moreover have "status (analyzeUrl simpleURL ''example.com'') = Safe
      \<and> reasons (analyzeUrl simpleURL ''example.com'') = [''No obvious red flags detected'']"
    using reasons_never_empty [of simpleURL "''example.com''"
        "\<lparr>hostname = ''example.com'', pathname = ''/''\<rparr>"] parsed quiet by blast
  ultimately show ?thesis using failed parsed quiet by (intro conjI) blast+
qed

text \<open>
  C10. For every input string, a result with status dangerous has at least three reasons,
  the first of which is the summary \<open>High risk of phishing\<close>, and comes from a string
  that the constructor accepted: no rule weighs more than 40 and each weight comes with
  one reason, so a \<open>riskScore\<close> of 50 needs two of them. The witness reaches the status
  with exactly three reasons.
\<close>

theorem dangerous_has_three_reasons:
  "status (analyzeUrl newURL inputUrl) = Dangerous \<longrightarrow>
     3 \<le> length (reasons (analyzeUrl newURL inputUrl))
     \<and> hd (reasons (analyzeUrl newURL inputUrl)) = ''High risk of phishing''
     \<and> newURL (urlToCheck_of inputUrl) \<noteq> None"
proof (cases "newURL (urlToCheck_of inputUrl)")
  case None
  then show ?thesis by (simp add: analyzeUrl_None)
next
  case (Some u)
  let ?st = "checkRules (urlToCheck_of inputUrl) u"
  have "riskScore ?st \<le> 40 * int (length (reasonsArr ?st))"
    using checkRules_bounds by blast
  then have "2 \<le> length (reasonsArr ?st)" if "50 \<le> riskScore ?st"
    using that by linarith
  then have "status (classify ?st) = Dangerous \<longrightarrow>
      3 \<le> length (reasons (classify ?st)) \<and> hd (reasons (classify ?st)) = ''High risk of phishing''"
    by (simp add: classify_def)
  with Some show ?thesis by (simp add: analyzeUrl_Some)
qed

theorem dangerous_has_three_reasons_witness:
  "status (analyzeUrl simpleURL ''http://apple.example.com'') = Dangerous
   \<and> length (reasons (analyzeUrl simpleURL ''http://apple.example.com'')) = 3
   \<and> 3 \<le> length (reasons (analyzeUrl simpleURL ''http://apple.example.com''))
   \<and> hd (reasons (analyzeUrl simpleURL ''http://apple.example.com'')) = ''High risk of phishing''
   \<and> simpleURL (urlToCheck_of ''http://apple.example.com'') \<noteq> None"
proof -
  have res: "analyzeUrl simpleURL ''http://apple.example.com'' =
      \<lparr>status = Dangerous, score = 55,
       reasons = [''High risk of phishing'', ''Potentially impersonating apple'',
                  ''Not using secure HTTPS connection'']\<rparr>"
    by code_simp
  then have dangerous: "status (analyzeUrl simpleURL ''http://apple.example.com'') = Dangerous"
    and three: "length (reasons (analyzeUrl simpleURL ''http://apple.example.com'')) = 3"
    by simp_all
  from dangerous_has_three_reasons [of simpleURL "''http://apple.example.com''"] dangerous three
  show ?thesis by blast
qed

subsection \<open>Failure of the URL constructor\<close>

text \<open>
  C5. \<open>analyzeUrl\<close> returns a result for every input string: the \<open>try\<close> block ends in
  an error exactly when the URL constructor throws, the \<open>catch\<close> clause turns that error
  into a result, and this result is status suspicious, score 30 and the two fixed
  diagnostic reasons.
\<close>

theorem parse_failure_is_caught:
  "(\<exists>e. tryBlock newURL inputUrl = Inl e) = (newURL (urlToCheck_of inputUrl) = None)
   \<and> (analyzeUrl newURL inputUrl =
        (case tryBlock newURL inputUrl of
           Inr result \<Rightarrow> result
         | Inl e \<Rightarrow> \<lparr>status = Suspicious, score = 30,
                     reasons = [''Invalid URL format'', ''Could not properly analyze URL'']\<rparr>))
   \<and> (newURL (urlToCheck_of inputUrl) = None \<longrightarrow>
        analyzeUrl newURL inputUrl =
          \<lparr>status = Suspicious, score = 30,
           reasons = [''Invalid URL format'', ''Could not properly analyze URL'']\<rparr>)"
  by (cases "newURL (urlToCheck_of inputUrl)") (simp_all add: analyzeUrl_def tryBlock_def)

theorem parse_failure_is_caught_witness:
  "simpleURL (urlToCheck_of ''not a url'') = None
   \<and> analyzeUrl simpleURL ''not a url'' =
        \<lparr>status = Suspicious, score = 30,
         reasons = [''Invalid URL format'', ''Could not properly analyze URL'']\<rparr>"
proof -
  have failed: "simpleURL (urlToCheck_of ''not a url'') = None"
    by code_simp
  with parse_failure_is_caught [of simpleURL "''not a url''"] show ?thesis by blast
qed

subsection \<open>The brand rule\<close>

text \<open>
  C6. For every input that the URL constructor accepts: with \<open>hits\<close> the brands of
  \<open>commonBrands\<close> that the lower-cased hostname contains without ending in the brand
  followed by \<open>.com\<close> or \<open>.net\<close>, the accumulated \<open>riskScore\<close> is the weight of the other
  rules plus 40 for each brand of \<open>hits\<close>, and the reasons pushed are those of rules 1 to
  4, then \<open>Potentially impersonating\<close> and the brand once for each brand of \<open>hits\<close> in the
  order of the list, then those of rules 6 to 8. The score of the result is that sum
  clamped at 100 and its reasons are the summary followed by the pushed reasons. Each of
  the other rules contributes at most once: their reasons are pairwise distinct.
\<close>

theorem brand_rule_cumulative:
  "newURL (urlToCheck_of inputUrl) = Some urlObj \<longrightarrow>
   (let urlToCheck = urlToCheck_of inputUrl;
        domain = toLowerCase (hostname urlObj);
        path = toLowerCase (pathname urlObj);
        hits = impersonated domain;
        others = rulesBefore domain path @ rulesAfter urlToCheck domain;
        total = sum_list (map fst others) + 40 * int (length hits)
    in riskScore (checkRules urlToCheck urlObj) = total
       \<and> reasonsArr (checkRules urlToCheck urlObj) =
           map snd (rulesBefore domain path)
           @ map (\<lambda>brand. ''Potentially impersonating '' @ brand) hits
           @ map snd (rulesAfter urlToCheck domain)
       \<and> score (analyzeUrl newURL inputUrl) = min total 100
       \<and> reasons (analyzeUrl newURL inputUrl) =
           (if 50 \<le> total then [''High risk of phishing'']
            else if 25 \<le> total then [''Potential security concerns'']
            else if others = [] \<and> hits = [] then [''No obvious red flags detected'']
            else [])
           @ reasonsArr (checkRules urlToCheck urlObj)
       \<and> distinct (map snd others) \<and> distinct hits)"
proof
  assume parsed: "newURL (urlToCheck_of inputUrl) = Some urlObj"
  let ?u = "urlToCheck_of inputUrl"
  let ?d = "toLowerCase (hostname urlObj)"
  let ?p = "toLowerCase (pathname urlObj)"
  let ?total = "sum_list (map fst (rulesBefore ?d ?p @ rulesAfter ?u ?d))
                  + 40 * int (length (impersonated ?d))"
  have total: "riskScore (checkRules ?u urlObj) = ?total"
    by (simp add: checkRules_fired firedRules_def sum_brandRule Let_def)
  have pushed: "reasonsArr (checkRules ?u urlObj) =
      map snd (rulesBefore ?d ?p)
      @ map (\<lambda>brand. ''Potentially impersonating '' @ brand) (impersonated ?d)
      @ map snd (rulesAfter ?u ?d)"
    by (simp add: checkRules_fired firedRules_def brandRule_def comp_def Let_def)
  have none: "(reasonsArr (checkRules ?u urlObj) = []) =
      (rulesBefore ?d ?p @ rulesAfter ?u ?d = [] \<and> impersonated ?d = [])"
    by (auto simp add: pushed)
  have result: "analyzeUrl newURL inputUrl = classify (checkRules ?u urlObj)"
    using parsed by (rule analyzeUrl_Some)
  have sc: "score (analyzeUrl newURL inputUrl) = min ?total 100"
    by (simp only: result score_classify total)
  have rs: "reasons (analyzeUrl newURL inputUrl) =
      (if 50 \<le> ?total then [''High risk of phishing'']
       else if 25 \<le> ?total then [''Potential security concerns'']
       else if rulesBefore ?d ?p @ rulesAfter ?u ?d = [] \<and> impersonated ?d = []
         then [''No obvious red flags detected'']
       else [])
      @ reasonsArr (checkRules ?u urlObj)"
    by (simp only: result reasons_classify none total)
  show "let urlToCheck = urlToCheck_of inputUrl;
        domain = toLowerCase (hostname urlObj);
        path = toLowerCase (pathname urlObj);
        hits = impersonated domain;
        others = rulesBefore domain path @ rulesAfter urlToCheck domain;
        total = sum_list (map fst others) + 40 * int (length hits)
    in riskScore (checkRules urlToCheck urlObj) = total
       \<and> reasonsArr (checkRules urlToCheck urlObj) =
           map snd (rulesBefore domain path)
           @ map (\<lambda>brand. ''Potentially impersonating '' @ brand) hits
           @ map snd (rulesAfter urlToCheck domain)
       \<and> score (analyzeUrl newURL inputUrl) = min total 100
       \<and> reasons (analyzeUrl newURL inputUrl) =
           (if 50 \<le> total then [''High risk of phishing'']
            else if 25 \<le> total then [''Potential security concerns'']
            else if others = [] \<and> hits = [] then [''No obvious red flags detected'']
            else [])
           @ reasonsArr (checkRules urlToCheck urlObj)
       \<and> distinct (map snd others) \<and> distinct hits"
    unfolding Let_def
    using total pushed sc rs distinct_once_reasons [of ?d ?p ?u] distinct_impersonated [of ?d]
    by (intro conjI)
qed


theorem brand_rule_cumulative_witness:
  "simpleURL (urlToCheck_of ''http://paypal-amazon-apple.example.net/update'')
     = Some \<lparr>hostname = ''paypal-amazon-apple.example.net'', pathname = ''/update''\<rparr>
   \<and> impersonated ''paypal-amazon-apple.example.net'' = [''paypal'', ''amazon'', ''apple'']
   \<and> riskScore (checkRules ''http://paypal-amazon-apple.example.net/update''
         \<lparr>hostname = ''paypal-amazon-apple.example.net'', pathname = ''/update''\<rparr>)
       = 30 + 20 + 15 + 40 * 3
   \<and> score (analyzeUrl simpleURL ''http://paypal-amazon-apple.example.net/update'') = 100
   \<and> reasons (analyzeUrl simpleURL ''http://paypal-amazon-apple.example.net/update'') =
       [''High risk of phishing'', ''Domain contains suspicious keywords'',
        ''URL path contains phishing-related terms'', ''Potentially impersonating paypal'',
        ''Potentially impersonating amazon'', ''Potentially impersonating apple'',
        ''Not using secure HTTPS connection'']"
proof -
  let ?i = "''http://paypal-amazon-apple.example.net/update''"
  let ?d = "''paypal-amazon-apple.example.net''"
  let ?o = "\<lparr>hostname = ?d, pathname = ''/update''\<rparr>"
  have u: "urlToCheck_of ?i = ?i"
    by code_simp
  have parsed: "simpleURL (urlToCheck_of ?i) = Some ?o"
    by code_simp
  have d: "toLowerCase (hostname ?o) = ?d"
    by code_simp
  have p: "toLowerCase (pathname ?o) = ''/update''"
    by code_simp
  have hits: "impersonated ?d = [''paypal'', ''amazon'', ''apple'']"
    by code_simp
  have before: "rulesBefore ?d ''/update'' =
      [(30, ''Domain contains suspicious keywords''),
       (20, ''URL path contains phishing-related terms'')]"
    by code_simp
  have after: "rulesAfter ?i ?d = [(15, ''Not using secure HTTPS connection'')]"
    by code_simp
  from brand_rule_cumulative [of simpleURL ?i ?o] parsed
  have "riskScore (checkRules ?i ?o) = 30 + 20 + 15 + 40 * 3
     \<and> score (analyzeUrl simpleURL ?i) = 100
     \<and> reasons (analyzeUrl simpleURL ?i) =
       [''High risk of phishing'', ''Domain contains suspicious keywords'',
        ''URL path contains phishing-related terms'', ''Potentially impersonating paypal'',
        ''Potentially impersonating amazon'', ''Potentially impersonating apple'',
        ''Not using secure HTTPS connection'']"
    unfolding Let_def u d p hits before after by simp
  with parsed hits show ?thesis by blast
qed

subsection \<open>The scenarios\<close>

text \<open>
  Each scenario is stated for every URL constructor that parses the input into the
  hostname and pathname that the platform gives, and has \<open>simpleURL\<close> as its witness.
\<close>

text \<open>
  C1, as the specification states it, fails: on \<open>https://www.google.com\<close> the result is
  not score 0, status safe and the one default reason.
\<close>

theorem google_not_safe:
  "\<not> (score (analyzeUrl simpleURL ''https://www.google.com'') = 0
       \<and> status (analyzeUrl simpleURL ''https://www.google.com'') = Safe
       \<and> reasons (analyzeUrl simpleURL ''https://www.google.com'')
           = [''No obvious red flags detected''])"
proof -
  have "analyzeUrl simpleURL ''https://www.google.com'' =
      \<lparr>status = Suspicious, score = 30,
       reasons = [''Potential security concerns'', ''Domain contains suspicious keywords'']\<rparr>"
    by code_simp
  then show ?thesis by simp
qed

text \<open>
  C1, amended. On \<open>https://www.google.com\<close> exactly one rule fires, the keyword rule on
  the hostname: the hostname contains the keyword \<open>google\<close> and is none of the legitimate
  domains. The result is score 30, status suspicious and the reasons
  \<open>Potential security concerns\<close> and \<open>Domain contains suspicious keywords\<close>.
\<close>

theorem google_keyword_fires:
  "newURL ''https://www.google.com''
     = Some \<lparr>hostname = ''www.google.com'', pathname = ''/''\<rparr> \<longrightarrow>
   analyzeUrl newURL ''https://www.google.com'' =
     \<lparr>status = Suspicious, score = 30,
      reasons = [''Potential security concerns'', ''Domain contains suspicious keywords'']\<rparr>
   \<and> firedRules ''https://www.google.com''
       \<lparr>hostname = ''www.google.com'', pathname = ''/''\<rparr>
       = [(30, ''Domain contains suspicious keywords'')]
   \<and> includes_str ''www.google.com'' ''google''
   \<and> \<not> isLegitimateUse ''www.google.com'' ''google''"
proof
  let ?i = "''https://www.google.com''"
  let ?o = "\<lparr>hostname = ''www.google.com'', pathname = ''/''\<rparr>"
  assume parsed: "newURL ?i = Some ?o"
  have "urlToCheck_of ?i = ?i"
    by code_simp
  moreover have "classify (checkRules ?i ?o) =
      \<lparr>status = Suspicious, score = 30,
       reasons = [''Potential security concerns'', ''Domain contains suspicious keywords'']\<rparr>"
    by code_simp
  ultimately have "analyzeUrl newURL ?i =
      \<lparr>status = Suspicious, score = 30,
       reasons = [''Potential security concerns'', ''Domain contains suspicious keywords'']\<rparr>"
    using parsed by (intro analyzeUrl_with_scheme)
  moreover have "firedRules ?i ?o = [(30, ''Domain contains suspicious keywords'')]"
    by code_simp
  moreover have "includes_str ''www.google.com'' ''google''"
    by code_simp
  moreover have "\<not> isLegitimateUse ''www.google.com'' ''google''"
    by code_simp
  ultimately show "analyzeUrl newURL ?i =
     \<lparr>status = Suspicious, score = 30,
      reasons = [''Potential security concerns'', ''Domain contains suspicious keywords'']\<rparr>
   \<and> firedRules ?i ?o = [(30, ''Domain contains suspicious keywords'')]
   \<and> includes_str ''www.google.com'' ''google''
   \<and> \<not> isLegitimateUse ''www.google.com'' ''google''"
    by (intro conjI)
qed

theorem google_keyword_fires_witness:
  "simpleURL ''https://www.google.com''
     = Some \<lparr>hostname = ''www.google.com'', pathname = ''/''\<rparr>
   \<and> analyzeUrl simpleURL ''https://www.google.com'' =
     \<lparr>status = Suspicious, score = 30,
      reasons = [''Potential security concerns'', ''Domain contains suspicious keywords'']\<rparr>"
proof -
  have parsed: "simpleURL ''https://www.google.com''
     = Some \<lparr>hostname = ''www.google.com'', pathname = ''/''\<rparr>"
    by code_simp
  with google_keyword_fires [of simpleURL] show ?thesis by blast
qed

text \<open>
  C7. On \<open>http://secure-login-verify-account.badsite.com\<close> three rules fire, each once:
  the keyword rule on the hostname with weight 30 (four keywords occur in the hostname),
  the hyphen rule with weight 15 (the hostname splits at hyphens into 4 segments) and the
  \<open>http\<close> rule with weight 15. The score is 60, which is at least 50, and the status is
  dangerous.
\<close>

theorem badsite_dangerous:
  "newURL ''http://secure-login-verify-account.badsite.com''
     = Some
         \<lparr>hostname = ''secure-login-verify-account.badsite.com'', pathname = ''/''\<rparr> \<longrightarrow>
   analyzeUrl newURL ''http://secure-login-verify-account.badsite.com'' =
     \<lparr>status = Dangerous, score = 60,
      reasons = [''High risk of phishing'',
                 ''Domain contains suspicious keywords'',
                 ''Domain has suspicious hyphen pattern'',
                 ''Not using secure HTTPS connection'']\<rparr>
   \<and> firedRules ''http://secure-login-verify-account.badsite.com''
       \<lparr>hostname = ''secure-login-verify-account.badsite.com'', pathname = ''/''\<rparr>
       = [(30, ''Domain contains suspicious keywords''),
          (15, ''Domain has suspicious hyphen pattern''),
          (15, ''Not using secure HTTPS connection'')]
   \<and> split_str ''secure-login-verify-account.badsite.com'' (CHR ''-'')
       = [''secure'', ''login'', ''verify'', ''account.badsite.com'']
   \<and> filter (includes_str ''secure-login-verify-account.badsite.com'') suspiciousKeywords
       = [''login'', ''verify'', ''secure'', ''account'']"
proof
  let ?i = "''http://secure-login-verify-account.badsite.com''"
  let ?o = "\<lparr>hostname = ''secure-login-verify-account.badsite.com'', pathname = ''/''\<rparr>"
  assume parsed: "newURL ?i = Some ?o"
  have "urlToCheck_of ?i = ?i"
    by code_simp
  moreover have "classify (checkRules ?i ?o) =
     \<lparr>status = Dangerous, score = 60,
      reasons = [''High risk of phishing'',
                 ''Domain contains suspicious keywords'',
                 ''Domain has suspicious hyphen pattern'',
                 ''Not using secure HTTPS connection'']\<rparr>"
    by code_simp
  ultimately have "analyzeUrl newURL ?i =
     \<lparr>status = Dangerous, score = 60,
      reasons = [''High risk of phishing'',
                 ''Domain contains suspicious keywords'',
                 ''Domain has suspicious hyphen pattern'',
                 ''Not using secure HTTPS connection'']\<rparr>"
    using parsed by (intro analyzeUrl_with_scheme)
  moreover have "firedRules ?i ?o
       = [(30, ''Domain contains suspicious keywords''),
          (15, ''Domain has suspicious hyphen pattern''),
          (15, ''Not using secure HTTPS connection'')]"
    by code_simp
  moreover have "split_str ''secure-login-verify-account.badsite.com'' (CHR ''-'')
       = [''secure'', ''login'', ''verify'', ''account.badsite.com'']"
    by code_simp
  moreover have "filter (includes_str ''secure-login-verify-account.badsite.com'') suspiciousKeywords
       = [''login'', ''verify'', ''secure'', ''account'']"
    by code_simp
  ultimately show "analyzeUrl newURL ?i =
     \<lparr>status = Dangerous, score = 60,
      reasons = [''High risk of phishing'',
                 ''Domain contains suspicious keywords'',
                 ''Domain has suspicious hyphen pattern'',
                 ''Not using secure HTTPS connection'']\<rparr>
   \<and> firedRules ?i ?o
       = [(30, ''Domain contains suspicious keywords''),
          (15, ''Domain has suspicious hyphen pattern''),
          (15, ''Not using secure HTTPS connection'')]
   \<and> split_str ''secure-login-verify-account.badsite.com'' (CHR ''-'')
       = [''secure'', ''login'', ''verify'', ''account.badsite.com'']
   \<and> filter (includes_str ''secure-login-verify-account.badsite.com'') suspiciousKeywords
       = [''login'', ''verify'', ''secure'', ''account'']"
    by (intro conjI)
qed

theorem badsite_dangerous_witness:
  "simpleURL ''http://secure-login-verify-account.badsite.com''
     = Some
         \<lparr>hostname = ''secure-login-verify-account.badsite.com'', pathname = ''/''\<rparr>
   \<and> analyzeUrl simpleURL ''http://secure-login-verify-account.badsite.com'' =
     \<lparr>status = Dangerous, score = 60,
      reasons = [''High risk of phishing'',
                 ''Domain contains suspicious keywords'',
                 ''Domain has suspicious hyphen pattern'',
                 ''Not using secure HTTPS connection'']\<rparr>"
proof -
  have parsed: "simpleURL ''http://secure-login-verify-account.badsite.com''
     = Some
         \<lparr>hostname = ''secure-login-verify-account.badsite.com'', pathname = ''/''\<rparr>"
    by code_simp
  with badsite_dangerous [of simpleURL] show ?thesis by blast
qed

text \<open>
  C8. On \<open>http://192.168.1.1/login\<close> exactly three rules fire: the keyword rule on the
  path with weight 20, the IP address rule with weight 35 and the \<open>http\<close> rule with weight
  15. The score is exactly 70 and the status is dangerous.
\<close>

theorem ip_login_dangerous:
  "newURL ''http://192.168.1.1/login''
     = Some \<lparr>hostname = ''192.168.1.1'', pathname = ''/login''\<rparr> \<longrightarrow>
   analyzeUrl newURL ''http://192.168.1.1/login'' =
     \<lparr>status = Dangerous, score = 70,
      reasons = [''High risk of phishing'',
                 ''URL path contains phishing-related terms'',
                 ''Uses IP address instead of domain name'',
                 ''Not using secure HTTPS connection'']\<rparr>
   \<and> firedRules ''http://192.168.1.1/login''
       \<lparr>hostname = ''192.168.1.1'', pathname = ''/login''\<rparr>
       = [(20, ''URL path contains phishing-related terms''),
          (35, ''Uses IP address instead of domain name''),
          (15, ''Not using secure HTTPS connection'')]"
proof
  let ?i = "''http://192.168.1.1/login''"
  let ?o = "\<lparr>hostname = ''192.168.1.1'', pathname = ''/login''\<rparr>"
  assume parsed: "newURL ?i = Some ?o"
  have "urlToCheck_of ?i = ?i"
    by code_simp
  moreover have "classify (checkRules ?i ?o) =
     \<lparr>status = Dangerous, score = 70,
      reasons = [''High risk of phishing'',
                 ''URL path contains phishing-related terms'',
                 ''Uses IP address instead of domain name'',
                 ''Not using secure HTTPS connection'']\<rparr>"
    by code_simp
  ultimately have "analyzeUrl newURL ?i =
     \<lparr>status = Dangerous, score = 70,
      reasons = [''High risk of phishing'',
                 ''URL path contains phishing-related terms'',
                 ''Uses IP address instead of domain name'',
                 ''Not using secure HTTPS connection'']\<rparr>"
    using parsed by (intro analyzeUrl_with_scheme)
  moreover have "firedRules ?i ?o
       = [(20, ''URL path contains phishing-related terms''),
          (35, ''Uses IP address instead of domain name''),
          (15, ''Not using secure HTTPS connection'')]"
    by code_simp
  ultimately show "analyzeUrl newURL ?i =
     \<lparr>status = Dangerous, score = 70,
      reasons = [''High risk of phishing'',
                 ''URL path contains phishing-related terms'',
                 ''Uses IP address instead of domain name'',
                 ''Not using secure HTTPS connection'']\<rparr>
   \<and> firedRules ?i ?o
       = [(20, ''URL path contains phishing-related terms''),
          (35, ''Uses IP address instead of domain name''),
          (15, ''Not using secure HTTPS connection'')]"
    by (intro conjI)
qed

theorem ip_login_dangerous_witness:
  "simpleURL ''http://192.168.1.1/login''
     = Some \<lparr>hostname = ''192.168.1.1'', pathname = ''/login''\<rparr>
   \<and> analyzeUrl simpleURL ''http://192.168.1.1/login'' =
     \<lparr>status = Dangerous, score = 70,
      reasons = [''High risk of phishing'',
                 ''URL path contains phishing-related terms'',
                 ''Uses IP address instead of domain name'',
                 ''Not using secure HTTPS connection'']\<rparr>"
proof -
  have parsed: "simpleURL ''http://192.168.1.1/login''
     = Some \<lparr>hostname = ''192.168.1.1'', pathname = ''/login''\<rparr>"
    by code_simp
  with ip_login_dangerous [of simpleURL] show ?thesis by blast
qed

text \<open>
  C9. On \<open>https://login.microsoftonline.com\<close>, a hostname among the legitimate domains,
  \<open>isLegitimateUse\<close> holds for every keyword, so the keyword rule on the hostname does not
  fire although the hostname contains \<open>login\<close> and \<open>microsoft\<close>. The brand rule fires for
  \<open>microsoft\<close>, because the hostname ends neither in \<open>microsoft.com\<close> nor in
  \<open>microsoft.net\<close>. The result is score 40, status suspicious and the reasons
  \<open>Potential security concerns\<close> and \<open>Potentially impersonating microsoft\<close>.
\<close>

theorem allowlist_spares_keyword_rule_only:
  "newURL ''https://login.microsoftonline.com''
     = Some
         \<lparr>hostname = ''login.microsoftonline.com'', pathname = ''/''\<rparr> \<longrightarrow>
   analyzeUrl newURL ''https://login.microsoftonline.com'' =
     \<lparr>status = Suspicious, score = 40,
      reasons = [''Potential security concerns'',
                 ''Potentially impersonating microsoft'']\<rparr>
   \<and> firedRules ''https://login.microsoftonline.com''
       \<lparr>hostname = ''login.microsoftonline.com'', pathname = ''/''\<rparr>
       = [(40, ''Potentially impersonating microsoft'')]
   \<and> isLegitimateUse ''login.microsoftonline.com'' keyword
   \<and> filter (includes_str ''login.microsoftonline.com'') suspiciousKeywords
       = [''login'', ''microsoft'']
   \<and> impersonated ''login.microsoftonline.com'' = [''microsoft'']
   \<and> \<not> endsWith ''login.microsoftonline.com'' ''microsoft.com''
   \<and> \<not> endsWith ''login.microsoftonline.com'' ''microsoft.net''"
proof
  let ?i = "''https://login.microsoftonline.com''"
  let ?o = "\<lparr>hostname = ''login.microsoftonline.com'', pathname = ''/''\<rparr>"
  assume parsed: "newURL ?i = Some ?o"
  have "urlToCheck_of ?i = ?i"
    by code_simp
  moreover have "classify (checkRules ?i ?o) =
     \<lparr>status = Suspicious, score = 40,
      reasons = [''Potential security concerns'',
                 ''Potentially impersonating microsoft'']\<rparr>"
    by code_simp
  ultimately have "analyzeUrl newURL ?i =
     \<lparr>status = Suspicious, score = 40,
      reasons = [''Potential security concerns'',
                 ''Potentially impersonating microsoft'']\<rparr>"
    using parsed by (intro analyzeUrl_with_scheme)
  moreover have "firedRules ?i ?o
       = [(40, ''Potentially impersonating microsoft'')]"
    by code_simp
  moreover have "isLegitimateUse ''login.microsoftonline.com'' keyword"
    by (simp add: isLegitimateUse_def legitimateDomains_def startsWith_def)
  moreover have "filter (includes_str ''login.microsoftonline.com'') suspiciousKeywords
       = [''login'', ''microsoft'']"
    by code_simp
  moreover have "impersonated ''login.microsoftonline.com'' = [''microsoft'']"
    by code_simp
  moreover have "\<not> endsWith ''login.microsoftonline.com'' ''microsoft.com''"
    by code_simp
  moreover have "\<not> endsWith ''login.microsoftonline.com'' ''microsoft.net''"
    by code_simp
  ultimately show "analyzeUrl newURL ?i =
     \<lparr>status = Suspicious, score = 40,
      reasons = [''Potential security concerns'',
                 ''Potentially impersonating microsoft'']\<rparr>
   \<and> firedRules ?i ?o
       = [(40, ''Potentially impersonating microsoft'')]
   \<and> isLegitimateUse ''login.microsoftonline.com'' keyword
   \<and> filter (includes_str ''login.microsoftonline.com'') suspiciousKeywords
       = [''login'', ''microsoft'']
   \<and> impersonated ''login.microsoftonline.com'' = [''microsoft'']
   \<and> \<not> endsWith ''login.microsoftonline.com'' ''microsoft.com''
   \<and> \<not> endsWith ''login.microsoftonline.com'' ''microsoft.net''"
    by (intro conjI)
qed

theorem allowlist_spares_keyword_rule_only_witness:
  "simpleURL ''https://login.microsoftonline.com''
     = Some \<lparr>hostname = ''login.microsoftonline.com'', pathname = ''/''\<rparr>
   \<and> analyzeUrl simpleURL ''https://login.microsoftonline.com'' =
     \<lparr>status = Suspicious, score = 40,
      reasons = [''Potential security concerns'',
                 ''Potentially impersonating microsoft'']\<rparr>"
proof -
  have parsed: "simpleURL ''https://login.microsoftonline.com''
     = Some \<lparr>hostname = ''login.microsoftonline.com'', pathname = ''/''\<rparr>"
    by code_simp
  with allowlist_spares_keyword_rule_only [of simpleURL] show ?thesis by blast
qed

end
